theory Spec2Isabelle
  imports Main
begin

section \<open>The request hook \<open>useApiRequest\<close>\<close>

text \<open>
  The hook keeps a reducer state, an instance counter \<open>seqRef.current\<close> and issues
  transport calls whose settlements are dispatched back to the reducer. The embedding
  follows the source function by function:
  \<^item> a value of the TypeScript type \<open>any\<close> is a value of the type variable \<open>'a\<close>, and a
    field that can be \<open>null\<close> or absent is an \<open>option\<close>;
  \<^item> a JavaScript number that the hook only counts with or compares (the sequence
    number, the result code) is an \<open>int\<close>: JavaScript adds 1 exactly to every integer
    below \<open>2 ^ 53\<close>, which is more than a counter that starts at 0 comes to;
  \<^item> whatever the code does besides computing a state (calling a callback, arming a
    timer, calling the transport, logging) is an \<open>effect\<close>, appended to a trace in
    the order in which the code performs it;
  \<^item> the callbacks themselves are caller code: the model records that they are invoked
    and with which argument, not what they do.
  Several source records share field names (\<open>error\<close>, \<open>payload\<close>, \<open>code\<close>), which
  HOL records of one theory cannot: the fields of the reducer action carry the prefix
  \<open>a\<close>, those of the response data the prefix \<open>d\<close>, those of the transport result
  the prefix \<open>r\<close> and those of the per-call arguments the prefix \<open>arg_\<close>.
\<close>

subsection \<open>Data\<close>

text \<open>A JavaScript \<open>Error\<close> object, identified by its message.\<close>

datatype Error = Error string

text \<open>The message of the error built when an error action carries none (UTF-8 bytes).\<close>

definition default_error_message :: string where
  "default_error_message =
     [CHR 0xE7, CHR 0xBD, CHR 0x91, CHR 0xE7, CHR 0xBB, CHR 0x9C,
      CHR 0xE8, CHR 0xAF, CHR 0xB7, CHR 0xE6, CHR 0xB1, CHR 0x82,
      CHR 0xE9, CHR 0x94, CHR 0x99, CHR 0xE8, CHR 0xAF, CHR 0xAF]"

text \<open>\<open>interface UseApiInternalState\<close>.\<close>

record 'a UseApiInternalState =
  loading :: bool
  code :: "int option"
  message :: "string option"
  payload :: "'a option"
  error :: "Error option"

text \<open>
  Modelled from the spec: the type \<open>ApiRequestData\<close> is declared outside the given
  sources; the spec gives it the fields \<open>code\<close>, \<open>message\<close> and \<open>payload\<close>, which are
  the three the reducer reads.
\<close>

record 'a ApiRequestData =
  dcode :: int
  dmessage :: string
  dpayload :: "'a option"

text \<open>
  The \<open>type\<close> of an action. The TypeScript type admits the first four only; the
  fifth stands for any other string, which the reducer's \<open>default\<close> branch receives.
\<close>

datatype ActionType = LOAD | DONE | ERROR | MUTATE | UNRECOGNIZED

text \<open>\<open>interface UseApiReducerAction\<close>.\<close>

record 'a UseApiReducerAction =
  seq :: "int option"
  atype :: ActionType
  adata :: "'a ApiRequestData option"
  aerror :: "Error option"
  mutatedPayload :: "'a option"

text \<open>
  Modelled from the spec: the types \<open>ApiRequestParam\<close> and \<open>ApiRequestStateEnum\<close> and
  the result type of the transport call are declared outside the given sources. The
  spec gives the transport the arguments \<open>path\<close>, \<open>method\<close>, query and body, and a
  result that is a success with data or an error with an \<open>Error\<close>. The field
  \<open>method\<close> is \<open>requestMethod\<close> here, after its type \<open>RequestMethod\<close>. Every
  field can hold \<open>undefined\<close>, also \<open>path\<close>, which a caller of the hook always gives:
  the object spread in \<open>sendRequest\<close> copies a per-call key whatever its value is.
\<close>

record 'a ApiRequestParam =
  path :: "string option"
  requestMethod :: "string option"
  requestBody :: "'a option"
  requestQuery :: "'a option"

datatype ApiRequestStateEnum = state_success | state_error

record 'a ApiRequestResult =
  rstate :: ApiRequestStateEnum
  rdata :: "'a ApiRequestData option"
  rerror :: "Error option"

text \<open>
  \<open>interface ManualSendParam\<close>. Every key is optional: \<open>None\<close> is a key that the
  object does not have, \<open>Some v\<close> a key that it has, with the value \<open>v\<close>, which can
  itself be \<open>undefined\<close> or \<open>null\<close> (\<open>Some None\<close>).
\<close>

record 'a ManualSendParam =
  arg_path :: "string option option"
  arg_method :: "string option option"
  arg_requestQuery :: "'a option option"
  arg_requestBody :: "'a option option"

text \<open>
  \<open>interface UseApiRequestParam extends ApiRequestParam\<close>. The five lifecycle
  callbacks are not fields here: they are caller code, and their invocations are
  recorded as effects. The two rate-limiting intervals only choose the wrapper of
  \<open>sendRequest\<close> that the hook returns, which is not modelled.
\<close>

record 'a UseApiRequestParam = "'a ApiRequestParam" +
  manual :: bool
  formatResult :: "('a option \<Rightarrow> 'a option) option"
  popModal :: "'a option"

subsection \<open>Effects\<close>

text \<open>An invocation of caller code, with its argument.\<close>

datatype 'a callback =
    onLoad
  | onSuccess "'a ApiRequestData"
  | onFail "'a ApiRequestData"
  | onError Error
  | onUnsuccessful
  | popModalOnApiResult "'a ApiRequestResult" "'a option"

text \<open>
  \<open>Call c\<close>: the code invokes \<open>c\<close> on the spot. \<open>SetTimeout cs\<close>: the code arms
  one zero-delay timer whose task invokes \<open>cs\<close> in this order.
  \<open>SendApiRequest p\<close>: one call of the transport. \<open>ConsoleLog s\<close>: one log line.
\<close>

datatype 'a effect =
    Call "'a callback"
  | SetTimeout "'a callback list"
  | SendApiRequest "'a ApiRequestParam"
  | ConsoleLog string

subsection \<open>The reducer\<close>

text \<open>
  Modelled from the spec: \<open>useOptionalPersistFn\<close> is defined outside the given
  sources; it yields the caller's function when one is given and its second argument
  otherwise. The source passes the identity for \<open>formatResult\<close>.
\<close>

definition useOptionalPersistFn :: "'f option \<Rightarrow> 'f \<Rightarrow> 'f" where
  "useOptionalPersistFn fn dflt = (case fn of None \<Rightarrow> dflt | Some f \<Rightarrow> f)"

text \<open>\<open>init\<close>: the first reducer state.\<close>

definition init :: "'a UseApiRequestParam \<Rightarrow> 'a UseApiInternalState" where
  "init cfg =
     \<lparr>loading = \<not> manual cfg, code = None, message = None, payload = None, error = None\<rparr>"

text \<open>
  \<open>stateReducer\<close>, with the present value of \<open>seqRef.current\<close> as a parameter. It
  returns the next state and the effects it performs. \<open>Object.assign({}, state,
  newState)\<close> overwrites the fields that \<open>newState\<close> has and keeps the others, which
  is a record update; a \<open>done\<close> action without data leaves \<open>newState\<close> undefined, and
  the assignment then copies the state as it is.
\<close>

definition stateReducer ::
  "'a UseApiRequestParam \<Rightarrow> int \<Rightarrow> 'a UseApiInternalState \<Rightarrow> 'a UseApiReducerAction
     \<Rightarrow> 'a UseApiInternalState \<times> 'a effect list" where
  "stateReducer cfg seqRef_current state action =
     (if (case seq action of None \<Rightarrow> False | Some k \<Rightarrow> seqRef_current \<noteq> k)
      then (state, [])
      else case atype action of
        LOAD \<Rightarrow> (state\<lparr>loading := True\<rparr>, [Call onLoad])
      | DONE \<Rightarrow>
          (case adata action of
             None \<Rightarrow> (state, [])
           | Some d \<Rightarrow>
               (state\<lparr>loading := False,
                      code := Some (dcode d),
                      message := Some (dmessage d),
                      payload := useOptionalPersistFn (formatResult cfg) (\<lambda>a. a) (dpayload d),
                      error := None\<rparr>,
                [SetTimeout (if dcode d = 0 then [onSuccess d]
                             else [onFail d, onUnsuccessful])]))
      | ERROR \<Rightarrow>
          (let error = (case aerror action of
                          None \<Rightarrow> Error default_error_message
                        | Some e \<Rightarrow> e)
           in (state\<lparr>loading := False, code := None, message := None, payload := None,
                      error := Some error\<rparr>,
               [SetTimeout [onError error, onUnsuccessful]]))
      | MUTATE \<Rightarrow> (state\<lparr>payload := mutatedPayload action\<rparr>, [])
      | UNRECOGNIZED \<Rightarrow> (state, [ConsoleLog ''Unrecognized action.'']))"

subsection \<open>The hook instance\<close>

text \<open>
  One instance of the hook: the counter, the state that \<open>useReducer\<close> holds, the
  state as the last render of the component read it, and the trace of the effects
  performed so far. The source's variable \<open>reducerState\<close> is a constant of one render:
  the functions that a render creates see the state of that render (\<open>rendered\<close>)
  until the next one, whatever has been dispatched since.
\<close>

record 'a hook =
  seqRef :: int
  reducerState :: "'a UseApiInternalState"
  rendered :: "'a UseApiInternalState"
  effects :: "'a effect list"

text \<open>
  \<open>dispatch\<close> hands an action to the reducer. The reducer reads the counter when it
  runs; the model runs it at once, on the counter of that moment. React can also run
  it at the next render: an action whose sequence number the counter has left by
  then is dropped there, where the model has applied it.
\<close>

definition dispatch :: "'a UseApiRequestParam \<Rightarrow> 'a hook \<Rightarrow> 'a UseApiReducerAction \<Rightarrow> 'a hook" where
  "dispatch cfg h action =
     (case stateReducer cfg (seqRef h) (reducerState h) action of
        (state', es) \<Rightarrow> h\<lparr>reducerState := state', effects := effects h @ es\<rparr>)"

text \<open>
  The synchronous part of \<open>sendRequest\<close>: advance the counter, merge the per-call
  arguments over the configured ones, dispatch the \<open>load\<close> action and call the
  transport. The sequence number the attempt captures is the counter's new value.
  In the merge, the spread \<open>...args\<close> overwrites a configured field with every key
  that \<open>args\<close> has, also when the key's value is \<open>undefined\<close>; the default \<open>GET\<close>
  belongs to the configured method alone.
\<close>

definition actualArgs ::
  "'a UseApiRequestParam \<Rightarrow> 'a ManualSendParam option \<Rightarrow> 'a ApiRequestParam" where
  "actualArgs cfg args =
     (let method_dflt = Some (case requestMethod cfg of None \<Rightarrow> ''GET'' | Some m \<Rightarrow> m)
      in case args of
        None \<Rightarrow>
          \<lparr>path = path cfg, requestMethod = method_dflt,
           requestBody = requestBody cfg, requestQuery = requestQuery cfg\<rparr>
      | Some a \<Rightarrow>
          \<lparr>path = (case arg_path a of None \<Rightarrow> path cfg | Some p \<Rightarrow> p),
           requestMethod = (case arg_method a of None \<Rightarrow> method_dflt | Some m \<Rightarrow> m),
           requestBody = (case arg_requestBody a of None \<Rightarrow> requestBody cfg | Some b \<Rightarrow> b),
           requestQuery = (case arg_requestQuery a of None \<Rightarrow> requestQuery cfg | Some q \<Rightarrow> q)\<rparr>)"

definition sendRequest ::
  "'a UseApiRequestParam \<Rightarrow> 'a hook \<Rightarrow> 'a ManualSendParam option \<Rightarrow> 'a hook" where
  "sendRequest cfg h args =
     (let h1 = h\<lparr>seqRef := seqRef h + 1\<rparr>;
          currentSeq = seqRef h1;
          h2 = dispatch cfg h1
                 \<lparr>seq = Some currentSeq, atype = LOAD, adata = None, aerror = None,
                  mutatedPayload = None\<rparr>
      in h2\<lparr>effects := effects h2 @ [SendApiRequest (actualArgs cfg args)]\<rparr>)"

text \<open>
  The handler given to \<open>then\<close>: it runs when the transport's promise is fulfilled
  with a result, for the attempt that captured \<open>currentSeq\<close>.
\<close>

definition onFulfilled ::
  "'a UseApiRequestParam \<Rightarrow> 'a hook \<Rightarrow> int \<Rightarrow> 'a ApiRequestResult \<Rightarrow> 'a hook" where
  "onFulfilled cfg h currentSeq result =
     (let h1 = (if rstate result = state_error
                then dispatch cfg h
                       \<lparr>seq = Some currentSeq, atype = ERROR, adata = None,
                        aerror = rerror result, mutatedPayload = None\<rparr>
                else dispatch cfg h
                       \<lparr>seq = Some currentSeq, atype = DONE, adata = rdata result,
                        aerror = None, mutatedPayload = None\<rparr>)
      in h1\<lparr>effects := effects h1 @ [SetTimeout [popModalOnApiResult result (popModal cfg)]]\<rparr>)"

text \<open>
  The handler given to \<open>catch\<close>: it runs when the transport's promise is rejected.
  The reason is given by its \<open>toString()\<close>, absent for a \<open>null\<close> or \<open>undefined\<close>
  reason, which the template literal prints as \<open>undefined\<close>.
\<close>

definition onRejected :: "'a hook \<Rightarrow> string option \<Rightarrow> 'a hook" where
  "onRejected h reason =
     h\<lparr>effects := effects h @
         [ConsoleLog (''Should never happen. '' @
            (case reason of None \<Rightarrow> ''undefined'' | Some s \<Rightarrow> s))]\<rparr>"

text \<open>
  How the transport's promise settles, and the promise that
  \<open>sendApiRequest(..).then(..).catch(..)\<close> is: \<open>then\<close> runs its handler on a
  fulfilled promise and passes a rejection on, \<open>catch\<close> runs its handler on a
  rejection, and the promise either of them returns is fulfilled once its handler has
  returned.
\<close>

datatype 'v promise = Fulfilled 'v | Rejected "string option"

definition settle ::
  "'a UseApiRequestParam \<Rightarrow> 'a hook \<Rightarrow> int \<Rightarrow> 'a ApiRequestResult promise
     \<Rightarrow> unit promise \<times> 'a hook" where
  "settle cfg h currentSeq p =
     (let (p1, h1) = (case p of
                        Fulfilled result \<Rightarrow> (Fulfilled (), onFulfilled cfg h currentSeq result)
                      | Rejected reason \<Rightarrow> (Rejected reason, h))
      in case p1 of
           Fulfilled u \<Rightarrow> (Fulfilled u, h1)
         | Rejected reason \<Rightarrow> (Fulfilled (), onRejected h1 reason))"

text \<open>\<open>abort\<close>.\<close>

definition abort :: "'a hook \<Rightarrow> 'a hook" where
  "abort h = h\<lparr>seqRef := seqRef h + 1\<rparr>"

text \<open>
  \<open>mutate\<close>: its argument is an updater function, applied to the payload that the
  last render read, or a replacement value. The action it dispatches has no \<open>seq\<close>.
  Modelled from the spec: \<open>usePersistFn\<close> is defined outside the given sources; the
  function it returns keeps one identity and calls the function of the latest render.
\<close>

datatype 'a mutate_arg = Updater "'a option \<Rightarrow> 'a option" | Replacement "'a option"

definition mutate :: "'a UseApiRequestParam \<Rightarrow> 'a hook \<Rightarrow> 'a mutate_arg \<Rightarrow> 'a hook" where
  "mutate cfg h arg =
     (let mutatedPayload = (case arg of
                              Updater f \<Rightarrow> f (payload (rendered h))
                            | Replacement v \<Rightarrow> v)
      in dispatch cfg h
           \<lparr>seq = None, atype = MUTATE, adata = None, aerror = None,
            mutatedPayload = mutatedPayload\<rparr>)"

text \<open>
  \<open>useApiRequest\<close>: the instance as the first render creates it, a later render
  (\<open>render\<close>), which reads the state that \<open>useReducer\<close> holds, and the effect that
  runs on first activation (\<open>mount\<close>) with its cleanup (\<open>unmount\<close>).
\<close>

definition useApiRequest :: "'a UseApiRequestParam \<Rightarrow> 'a hook" where
  "useApiRequest cfg =
     \<lparr>seqRef = 0, reducerState = init cfg, rendered = init cfg, effects = []\<rparr>"

definition render :: "'a hook \<Rightarrow> 'a hook" where
  "render h = h\<lparr>rendered := reducerState h\<rparr>"

definition mount :: "'a UseApiRequestParam \<Rightarrow> 'a hook \<Rightarrow> 'a hook" where
  "mount cfg h = (if \<not> manual cfg then sendRequest cfg h None else h)"

definition unmount :: "'a hook \<Rightarrow> 'a hook" where
  "unmount h = abort h"

text \<open>
  A run of the instance: the public operations, the settlements of earlier attempts
  and the renders of the component, in the order in which they happen.
\<close>

datatype 'a event =
    SendRequest "'a ManualSendParam option"
  | Abort
  | Mutate "'a mutate_arg"
  | Settle int "'a ApiRequestResult promise"
  | Render

fun step :: "'a UseApiRequestParam \<Rightarrow> 'a hook \<Rightarrow> 'a event \<Rightarrow> 'a hook" where
  "step cfg h (SendRequest args) = sendRequest cfg h args"
| "step cfg h Abort = abort h"
| "step cfg h (Mutate arg) = mutate cfg h arg"
| "step cfg h (Settle currentSeq p) = snd (settle cfg h currentSeq p)"
| "step cfg h Render = render h"

fun run :: "'a UseApiRequestParam \<Rightarrow> 'a hook \<Rightarrow> 'a event list \<Rightarrow> 'a hook" where
  "run cfg h [] = h"
| "run cfg h (e # es) = run cfg (step cfg h e) es"

subsection \<open>Reading a trace and a run\<close>

text \<open>
  The transport calls of a trace, with their arguments and in order, and the triggers
  of a run, with their per-call arguments.
\<close>


fun transport_calls :: "'a effect list \<Rightarrow> 'a ApiRequestParam list" where
  "transport_calls [] = []"
| "transport_calls (SendApiRequest p # es) = p # transport_calls es"
| "transport_calls (e # es) = transport_calls es"

fun triggers :: "'a event list \<Rightarrow> 'a ManualSendParam option list" where
  "triggers [] = []"
| "triggers (SendRequest args # es) = args # triggers es"
| "triggers (e # es) = triggers es"

subsection \<open>Concrete inputs\<close>

text \<open>
  A configuration as the statistics card uses the hook (a path and nothing else), with
  integer payloads; a configuration for manual use with a formatter that doubles the
  payload; reducer states, response data and actions.
\<close>

abbreviation stat_cfg :: "int UseApiRequestParam" where
  "stat_cfg \<equiv>
     \<lparr>path = Some ''/stat?mine'', requestMethod = None, requestBody = None, requestQuery = None,
      manual = False, formatResult = None, popModal = None\<rparr>"

abbreviation manual_cfg :: "int UseApiRequestParam" where
  "manual_cfg \<equiv>
     \<lparr>path = Some ''/stat?mine'', requestMethod = None, requestBody = None, requestQuery = None,
      manual = True, formatResult = Some (map_option (\<lambda>n. 2 * n)), popModal = None\<rparr>"

abbreviation idle_state :: "int UseApiInternalState" where
  "idle_state \<equiv>
     \<lparr>loading = False, code = None, message = None, payload = None, error = None\<rparr>"

abbreviation loading_state :: "int UseApiInternalState" where
  "loading_state \<equiv>
     \<lparr>loading = True, code = None, message = None, payload = None, error = None\<rparr>"

abbreviation failed_state :: "int UseApiInternalState" where
  "failed_state \<equiv>
     \<lparr>loading = False, code = None, message = None, payload = None,
      error = Some (Error ''timeout'')\<rparr>"

abbreviation loaded_state :: "int UseApiInternalState" where
  "loaded_state \<equiv>
     \<lparr>loading = False, code = Some 0, message = Some ''ok'', payload = Some 5,
      error = None\<rparr>"

abbreviation old_data :: "int ApiRequestData" where
  "old_data \<equiv> \<lparr>dcode = 0, dmessage = ''old'', dpayload = Some 3\<rparr>"

abbreviation new_data :: "int ApiRequestData" where
  "new_data \<equiv> \<lparr>dcode = 0, dmessage = ''new'', dpayload = Some 7\<rparr>"

abbreviation success :: "'a ApiRequestData \<Rightarrow> 'a ApiRequestResult" where
  "success d \<equiv> \<lparr>rstate = state_success, rdata = Some d, rerror = None\<rparr>"

abbreviation load_action :: "int \<Rightarrow> 'a UseApiReducerAction" where
  "load_action k \<equiv>
     \<lparr>seq = Some k, atype = LOAD, adata = None, aerror = None, mutatedPayload = None\<rparr>"

abbreviation done_action :: "int \<Rightarrow> 'a ApiRequestData option \<Rightarrow> 'a UseApiReducerAction" where
  "done_action k d \<equiv>
     \<lparr>seq = Some k, atype = DONE, adata = d, aerror = None, mutatedPayload = None\<rparr>"

abbreviation error_action :: "int \<Rightarrow> Error option \<Rightarrow> 'a UseApiReducerAction" where
  "error_action k e \<equiv>
     \<lparr>seq = Some k, atype = ERROR, adata = None, aerror = e, mutatedPayload = None\<rparr>"

abbreviation fresh :: "'a UseApiInternalState \<Rightarrow> 'a hook" where
  "fresh s \<equiv> \<lparr>seqRef = 0, reducerState = s, rendered = s, effects = []\<rparr>"

section \<open>Properties\<close>

subsection \<open>The counter and the guard\<close>

lemma stateReducer_stale:
  "seq action = Some k \<Longrightarrow> k \<noteq> cur \<Longrightarrow> stateReducer cfg cur state action = (state, [])"
  by (simp add: stateReducer_def)


lemma seqRef_dispatch: "seqRef (dispatch cfg h action) = seqRef h"
  by (simp add: dispatch_def split: prod.split)

lemma dispatch_stale:
  "seq action = Some k \<Longrightarrow> k \<noteq> seqRef h \<Longrightarrow> dispatch cfg h action = h"
  by (simp add: dispatch_def stateReducer_stale)

lemma seqRef_sendRequest: "seqRef (sendRequest cfg h args) = seqRef h + 1"
  by (simp add: sendRequest_def Let_def seqRef_dispatch)

lemma seqRef_onFulfilled: "seqRef (onFulfilled cfg h k result) = seqRef h"
  by (simp add: onFulfilled_def Let_def seqRef_dispatch)

lemma seqRef_settle: "seqRef (snd (settle cfg h k p)) = seqRef h"
  by (cases p) (simp_all add: settle_def onRejected_def seqRef_onFulfilled)

lemma seqRef_mutate: "seqRef (mutate cfg h arg) = seqRef h"
  by (simp add: mutate_def Let_def seqRef_dispatch)

lemma seqRef_step: "seqRef h \<le> seqRef (step cfg h e)"
  by (cases e)
     (simp_all add: seqRef_sendRequest abort_def seqRef_mutate seqRef_settle render_def)

lemma seqRef_run: "seqRef h \<le> seqRef (run cfg h es)"
proof (induction es arbitrary: h)
  case Nil
  show ?case by simp
next
  case (Cons e es)
  have "seqRef h \<le> seqRef (step cfg h e)" by (rule seqRef_step)
  also have "\<dots> \<le> seqRef (run cfg (step cfg h e) es)" by (rule Cons.IH)
  finally show ?case by simp
qed

lemma reducerState_onFulfilled_stale:
  "k \<noteq> seqRef h \<Longrightarrow> reducerState (onFulfilled cfg h k result) = reducerState h"
  by (simp add: onFulfilled_def Let_def dispatch_stale)

lemma reducerState_settle_stale:
  "k \<noteq> seqRef h \<Longrightarrow> reducerState (snd (settle cfg h k p)) = reducerState h"
  by (cases p) (simp_all add: settle_def onRejected_def reducerState_onFulfilled_stale)

lemma reducerState_onFulfilled_current:
  "reducerState (onFulfilled cfg h (seqRef h) result) =
     (if rstate result = state_error
      then (reducerState h)\<lparr>loading := False, code := None, message := None, payload := None,
              error := Some (case rerror result of None \<Rightarrow> Error default_error_message | Some e \<Rightarrow> e)\<rparr>
      else case rdata result of
             None \<Rightarrow> reducerState h
           | Some d \<Rightarrow> (reducerState h)\<lparr>loading := False, code := Some (dcode d),
                message := Some (dmessage d),
                payload := useOptionalPersistFn (formatResult cfg) (\<lambda>a. a) (dpayload d),
                error := None\<rparr>)"
  by (simp add: onFulfilled_def Let_def dispatch_def stateReducer_def split: option.split)

subsection \<open>What each operation does\<close>

lemma stateReducer_current_done:
  "seq action = None \<or> seq action = Some cur \<Longrightarrow> atype action = DONE \<Longrightarrow>
   adata action = Some d \<Longrightarrow>
   stateReducer cfg cur state action =
     (state\<lparr>loading := False, code := Some (dcode d), message := Some (dmessage d),
            payload := useOptionalPersistFn (formatResult cfg) (\<lambda>a. a) (dpayload d),
            error := None\<rparr>,
      [SetTimeout (if dcode d = 0 then [onSuccess d] else [onFail d, onUnsuccessful])])"
  by (auto simp: stateReducer_def)

lemma stateReducer_current_error:
  "seq action = None \<or> seq action = Some cur \<Longrightarrow> atype action = ERROR \<Longrightarrow>
   stateReducer cfg cur state action =
     (state\<lparr>loading := False, code := None, message := None, payload := None,
            error := Some (case aerror action of None \<Rightarrow> Error default_error_message
                           | Some e \<Rightarrow> e)\<rparr>,
      [SetTimeout [onError (case aerror action of None \<Rightarrow> Error default_error_message
                            | Some e \<Rightarrow> e), onUnsuccessful]])"
  by (auto simp: stateReducer_def Let_def)

lemma stateReducer_current_load:
  "seq action = None \<or> seq action = Some cur \<Longrightarrow> atype action = LOAD \<Longrightarrow>
   stateReducer cfg cur state action = (state\<lparr>loading := True\<rparr>, [Call onLoad])"
  by (auto simp: stateReducer_def)

lemma stateReducer_current_mutate:
  "seq action = None \<or> seq action = Some cur \<Longrightarrow> atype action = MUTATE \<Longrightarrow>
   stateReducer cfg cur state action = (state\<lparr>payload := mutatedPayload action\<rparr>, [])"
  by (auto simp: stateReducer_def)

lemma stateReducer_current_done_no_data:
  "seq action = None \<or> seq action = Some cur \<Longrightarrow> atype action = DONE \<Longrightarrow>
   adata action = None \<Longrightarrow> stateReducer cfg cur state action = (state, [])"
  by (auto simp: stateReducer_def)

lemma stateReducer_current_unrecognized:
  "seq action = None \<or> seq action = Some cur \<Longrightarrow> atype action = UNRECOGNIZED \<Longrightarrow>
   stateReducer cfg cur state action = (state, [ConsoleLog ''Unrecognized action.''])"
  by (auto simp: stateReducer_def)

lemma error_set_by_error_action:
  assumes "error state = None"
    and "error (fst (stateReducer cfg cur state action)) \<noteq> None"
  shows "atype action = ERROR \<and> (seq action = None \<or> seq action = Some cur)"
proof -
  have current: "seq action = None \<or> seq action = Some cur"
  proof (cases "seq action")
    case None
    then show ?thesis by simp
  next
    case (Some k)
    show ?thesis
    proof (cases "k = cur")
      case True
      with Some show ?thesis by simp
    next
      case False
      with Some have "stateReducer cfg cur state action = (state, [])"
        by (simp add: stateReducer_stale)
      with assms show ?thesis by simp
    qed
  qed
  have "atype action = ERROR"
  proof (cases "atype action")
    case LOAD
    with current assms show ?thesis by (simp add: stateReducer_current_load)
  next
    case DONE
    show ?thesis
    proof (cases "adata action")
      case None
      with DONE current assms show ?thesis by (simp add: stateReducer_current_done_no_data)
    next
      case (Some d)
      with DONE current assms show ?thesis by (simp add: stateReducer_current_done)
    qed
  next
    case ERROR
    then show ?thesis .
  next
    case MUTATE
    with current assms show ?thesis by (simp add: stateReducer_current_mutate)
  next
    case UNRECOGNIZED
    with current assms show ?thesis by (simp add: stateReducer_current_unrecognized)
  qed
  with current show ?thesis by simp
qed

lemma mutate_eq:
  "mutate cfg h arg =
     h\<lparr>reducerState := (reducerState h)
         \<lparr>payload := (case arg of Updater f \<Rightarrow> f (payload (rendered h))
                       | Replacement v \<Rightarrow> v)\<rparr>\<rparr>"
  by (simp add: mutate_def dispatch_def stateReducer_current_mutate)

lemma sendRequest_eq:
  "sendRequest cfg h args =
     h\<lparr>seqRef := seqRef h + 1,
       reducerState := (reducerState h)\<lparr>loading := True\<rparr>,
       effects := effects h @ [Call onLoad, SendApiRequest (actualArgs cfg args)]\<rparr>"
  by (simp add: sendRequest_def dispatch_def stateReducer_current_load)

lemma transport_calls_append:
  "transport_calls (xs @ ys) = transport_calls xs @ transport_calls ys"
  by (induction xs rule: transport_calls.induct) simp_all

lemma transport_calls_stateReducer:
  "transport_calls (snd (stateReducer cfg cur state action)) = []"
  by (simp add: stateReducer_def Let_def split: option.split ActionType.split)

lemma transport_calls_dispatch:
  "transport_calls (effects (dispatch cfg h action)) = transport_calls (effects h)"
  using transport_calls_stateReducer [of cfg "seqRef h" "reducerState h" action]
  by (auto simp: dispatch_def transport_calls_append split: prod.split)

lemma transport_calls_settle:
  "transport_calls (effects (snd (settle cfg h k p))) = transport_calls (effects h)"
  by (cases p)
     (simp_all add: settle_def onRejected_def onFulfilled_def Let_def
        transport_calls_append transport_calls_dispatch)

lemma transport_calls_step:
  "transport_calls (effects (step cfg h e)) =
     transport_calls (effects h) @ map (actualArgs cfg) (triggers [e])"
  by (cases e)
     (simp_all add: sendRequest_eq abort_def mutate_eq transport_calls_settle
        transport_calls_append render_def)

lemma triggers_Cons: "triggers (e # es) = triggers [e] @ triggers es"
  by (cases e) simp_all

lemma transport_calls_run:
  "transport_calls (effects (run cfg h es)) =
     transport_calls (effects h) @ map (actualArgs cfg) (triggers es)"
proof (induction es arbitrary: h)
  case Nil
  show ?case by simp
next
  case (Cons e es)
  have "transport_calls (effects (run cfg h (e # es))) =
          transport_calls (effects (step cfg h e)) @ map (actualArgs cfg) (triggers es)"
    by (simp add: Cons.IH)
  also have "\<dots> = transport_calls (effects h) @ map (actualArgs cfg) (triggers [e] @ triggers es)"
    by (simp add: transport_calls_step)
  also have "triggers [e] @ triggers es = triggers (e # es)"
    by (rule triggers_Cons [symmetric])
  finally show ?case .
qed

subsection \<open>Claims\<close>

text \<open>
  C1. An action that carries a sequence number other than the counter's present value
  leaves the state as it is, and the reducer does nothing else. Hence, when attempt A
  is triggered before attempt B (whatever happens in between) and B settles with a
  result while it is current, the state is the one B's result determines, and the
  settlement of A, whenever it arrives afterwards and whatever it is, does not change
  the state.
\<close>

theorem stale_response_suppression:
  fixes cfg :: "'a UseApiRequestParam"
  shows "(seq action = Some k \<and> k \<noteq> cur \<longrightarrow> stateReducer cfg cur state action = (state, []))
    \<and> (let hA = sendRequest cfg h0 argsA;
            hB = sendRequest cfg (run cfg hA es) argsB;
            h1 = snd (settle cfg hB (seqRef hB) (Fulfilled rB));
            h2 = run cfg h1 es'
        in reducerState h1 =
             (if rstate rB = state_error
              then (reducerState hB)\<lparr>loading := False, code := None, message := None,
                     payload := None,
                     error := Some (case rerror rB of None \<Rightarrow> Error default_error_message
                                    | Some e \<Rightarrow> e)\<rparr>
              else case rdata rB of
                     None \<Rightarrow> reducerState hB
                   | Some d \<Rightarrow>
                       (reducerState hB)\<lparr>loading := False, code := Some (dcode d),
                         message := Some (dmessage d),
                         payload := useOptionalPersistFn (formatResult cfg) (\<lambda>a. a) (dpayload d),
                         error := None\<rparr>)
           \<and> reducerState (snd (settle cfg h2 (seqRef hA) pA)) = reducerState h2)"
proof -
  define hA where "hA = sendRequest cfg h0 argsA"
  define hB where "hB = sendRequest cfg (run cfg hA es) argsB"
  define h1 where "h1 = snd (settle cfg hB (seqRef hB) (Fulfilled rB))"
  define h2 where "h2 = run cfg h1 es'"
  have "seqRef hA \<le> seqRef (run cfg hA es)" by (rule seqRef_run)
  then have "seqRef hA < seqRef hB" by (simp add: hB_def seqRef_sendRequest)
  moreover have "seqRef hB = seqRef h1" by (simp add: h1_def seqRef_settle)
  moreover have "seqRef h1 \<le> seqRef h2" unfolding h2_def by (rule seqRef_run)
  ultimately have "seqRef hA \<noteq> seqRef h2" by simp
  then have late: "reducerState (snd (settle cfg h2 (seqRef hA) pA)) = reducerState h2"
    by (rule reducerState_settle_stale)
  have "h1 = onFulfilled cfg hB (seqRef hB) rB" by (simp add: h1_def settle_def)
  then have outcome: "reducerState h1 =
             (if rstate rB = state_error
              then (reducerState hB)\<lparr>loading := False, code := None, message := None,
                     payload := None,
                     error := Some (case rerror rB of None \<Rightarrow> Error default_error_message
                                    | Some e \<Rightarrow> e)\<rparr>
              else case rdata rB of
                     None \<Rightarrow> reducerState hB
                   | Some d \<Rightarrow>
                       (reducerState hB)\<lparr>loading := False, code := Some (dcode d),
                         message := Some (dmessage d),
                         payload := useOptionalPersistFn (formatResult cfg) (\<lambda>a. a) (dpayload d),
                         error := None\<rparr>)"
    by (simp only: reducerState_onFulfilled_current)
  have stale: "seq action = Some k \<and> k \<noteq> cur \<longrightarrow> stateReducer cfg cur state action = (state, [])"
    by (simp add: stateReducer_stale)
  from stale outcome late show ?thesis
    unfolding Let_def hA_def hB_def h1_def h2_def by blast
qed



theorem stale_response_suppression_witness:
  "(seq (done_action 1 (Some old_data)) = Some 1 \<and> (1::int) \<noteq> 2)
   \<and> stateReducer stat_cfg 2 loading_state (done_action 1 (Some old_data)) = (loading_state, [])
   \<and> reducerState
        (snd (settle stat_cfg
               (snd (settle stat_cfg
                      (sendRequest stat_cfg (sendRequest stat_cfg (fresh idle_state) None) None)
                      2 (Fulfilled (success new_data))))
               1 (Fulfilled (success old_data))))
      = \<lparr>loading = False, code = Some 0, message = Some ''new'', payload = Some 7,
         error = None\<rparr>"
  using stale_response_suppression
    [where action = "done_action 1 (Some old_data)" and k = 1 and cur = 2
       and cfg = stat_cfg and state = loading_state and ?h0.0 = "fresh idle_state"
       and argsA = None and argsB = None and es = "[]" and es' = "[]"
       and rB = "success new_data" and pA = "Fulfilled (success old_data)"]
  by (simp add: sendRequest_def dispatch_def stateReducer_def settle_def onFulfilled_def
        useOptionalPersistFn_def Let_def)

text \<open>
  C2. A \<open>done\<close> action that passes the guard and carries data with code 0 sets
  \<open>loading\<close> to false, \<open>error\<close> to null and \<open>payload\<close> to the formatted raw payload
  (the raw payload itself when no formatter is configured). The reducer arms exactly
  one timer, whose task invokes \<open>onSuccess\<close> with the data once and nothing else:
  \<open>onFail\<close> is not invoked.
\<close>

theorem success_action:
  assumes "seq action = None \<or> seq action = Some cur"
    and "atype action = DONE" and "adata action = Some d" and "dcode d = 0"
  shows "loading (fst (stateReducer cfg cur state action)) = False
    \<and> error (fst (stateReducer cfg cur state action)) = None
    \<and> payload (fst (stateReducer cfg cur state action)) =
        (case formatResult cfg of None \<Rightarrow> dpayload d | Some f \<Rightarrow> f (dpayload d))
    \<and> snd (stateReducer cfg cur state action) = [SetTimeout [onSuccess d]]"
  using assms
  by (simp add: stateReducer_current_done useOptionalPersistFn_def split: option.split)

theorem success_action_witness:
  "(seq (done_action 2 (Some new_data)) = None \<or> seq (done_action 2 (Some new_data)) = Some 2)
   \<and> atype (done_action 2 (Some new_data)) = DONE
   \<and> adata (done_action 2 (Some new_data)) = Some new_data
   \<and> dcode new_data = 0
   \<and> loading (fst (stateReducer manual_cfg 2 failed_state (done_action 2 (Some new_data)))) = False
   \<and> error (fst (stateReducer manual_cfg 2 failed_state (done_action 2 (Some new_data)))) = None
   \<and> payload (fst (stateReducer manual_cfg 2 failed_state (done_action 2 (Some new_data)))) = Some 14
   \<and> snd (stateReducer manual_cfg 2 failed_state (done_action 2 (Some new_data)))
       = [SetTimeout [onSuccess new_data]]"
  using success_action [where action = "done_action 2 (Some new_data)" and cur = 2
      and d = new_data and cfg = manual_cfg and state = failed_state]
  by simp

text \<open>
  C3. An \<open>error\<close> action that passes the guard sets \<open>loading\<close> to false, \<open>code\<close>,
  \<open>message\<close> and \<open>payload\<close> to null and \<open>error\<close> to the supplied error, or to the
  default network-error \<open>Error\<close> when none is supplied. The reducer arms exactly one
  timer, whose task invokes \<open>onError\<close> with that error and then \<open>onUnsuccessful\<close>,
  once each.
\<close>

theorem transport_error_action:
  assumes "seq action = None \<or> seq action = Some cur" and "atype action = ERROR"
  shows "loading (fst (stateReducer cfg cur state action)) = False
    \<and> code (fst (stateReducer cfg cur state action)) = None
    \<and> message (fst (stateReducer cfg cur state action)) = None
    \<and> payload (fst (stateReducer cfg cur state action)) = None
    \<and> error (fst (stateReducer cfg cur state action)) =
        Some (case aerror action of None \<Rightarrow> Error default_error_message | Some e \<Rightarrow> e)
    \<and> snd (stateReducer cfg cur state action) =
        [SetTimeout [onError (case aerror action of None \<Rightarrow> Error default_error_message
                              | Some e \<Rightarrow> e),
                     onUnsuccessful]]"
  using assms by (simp add: stateReducer_current_error)

theorem transport_error_action_witness:
  "(seq (error_action 1 None :: int UseApiReducerAction) = None
      \<or> seq (error_action 1 None :: int UseApiReducerAction) = Some 1)
   \<and> atype (error_action 1 None :: int UseApiReducerAction) = ERROR
   \<and> loading (fst (stateReducer stat_cfg 1 loaded_state (error_action 1 None))) = False
   \<and> code (fst (stateReducer stat_cfg 1 loaded_state (error_action 1 None))) = None
   \<and> message (fst (stateReducer stat_cfg 1 loaded_state (error_action 1 None))) = None
   \<and> payload (fst (stateReducer stat_cfg 1 loaded_state (error_action 1 None))) = None
   \<and> error (fst (stateReducer stat_cfg 1 loaded_state (error_action 1 None)))
       = Some (Error default_error_message)
   \<and> snd (stateReducer stat_cfg 1 loaded_state (error_action 1 None))
       = [SetTimeout [onError (Error default_error_message), onUnsuccessful]]"
  using transport_error_action [where action = "error_action 1 None" and cur = 1
      and cfg = stat_cfg and state = loaded_state]
  by simp

text \<open>
  C4, as amended. Of the actions that pass the guard, a \<open>done\<close> action that carries
  data sets \<open>error\<close> to null whatever the state was, an \<open>error\<close> action sets it to an
  \<open>Error\<close>, and a \<open>load\<close> action sets \<open>loading\<close> to true and leaves \<open>error\<close> as it
  was: the start of an attempt does not clear the error of the one before. Only an
  \<open>error\<close> action that passes the guard turns a null \<open>error\<close> into an \<open>Error\<close>.
\<close>

theorem error_field_transitions:
  "((seq a1 = None \<or> seq a1 = Some cur) \<and> atype a1 = DONE \<and> adata a1 = Some d
      \<longrightarrow> error (fst (stateReducer cfg cur state a1)) = None)
   \<and> ((seq a2 = None \<or> seq a2 = Some cur) \<and> atype a2 = ERROR
      \<longrightarrow> error (fst (stateReducer cfg cur state a2)) \<noteq> None)
   \<and> ((seq a3 = None \<or> seq a3 = Some cur) \<and> atype a3 = LOAD
      \<longrightarrow> error (fst (stateReducer cfg cur state a3)) = error state
          \<and> loading (fst (stateReducer cfg cur state a3)) = True)
   \<and> (error state' = None \<and> error (fst (stateReducer cfg cur state' a4)) \<noteq> None
      \<longrightarrow> atype a4 = ERROR \<and> (seq a4 = None \<or> seq a4 = Some cur))"
proof -
  have cleared: "(seq a1 = None \<or> seq a1 = Some cur) \<and> atype a1 = DONE \<and> adata a1 = Some d
      \<longrightarrow> error (fst (stateReducer cfg cur state a1)) = None"
    by (simp add: stateReducer_current_done)
  have raised: "(seq a2 = None \<or> seq a2 = Some cur) \<and> atype a2 = ERROR
      \<longrightarrow> error (fst (stateReducer cfg cur state a2)) \<noteq> None"
    by (simp add: stateReducer_current_error)
  have kept: "(seq a3 = None \<or> seq a3 = Some cur) \<and> atype a3 = LOAD
      \<longrightarrow> error (fst (stateReducer cfg cur state a3)) = error state
          \<and> loading (fst (stateReducer cfg cur state a3)) = True"
    by (simp add: stateReducer_current_load)
  have only: "error state' = None \<and> error (fst (stateReducer cfg cur state' a4)) \<noteq> None
      \<longrightarrow> atype a4 = ERROR \<and> (seq a4 = None \<or> seq a4 = Some cur)"
    using error_set_by_error_action [of state' cfg cur a4] by blast
  from cleared raised kept only show ?thesis by (intro conjI)
qed

theorem error_field_transitions_witness:
  "((seq (done_action 1 (Some new_data)) = None \<or> seq (done_action 1 (Some new_data)) = Some 1)
      \<and> atype (done_action 1 (Some new_data)) = DONE
      \<and> adata (done_action 1 (Some new_data)) = Some new_data)
   \<and> error (fst (stateReducer stat_cfg 1 failed_state (done_action 1 (Some new_data)))) = None
   \<and> ((seq (error_action 1 None :: int UseApiReducerAction) = None
        \<or> seq (error_action 1 None :: int UseApiReducerAction) = Some 1)
      \<and> atype (error_action 1 None :: int UseApiReducerAction) = ERROR)
   \<and> error (fst (stateReducer stat_cfg 1 failed_state (error_action 1 None))) \<noteq> None
   \<and> ((seq (load_action 1 :: int UseApiReducerAction) = None
        \<or> seq (load_action 1 :: int UseApiReducerAction) = Some 1)
      \<and> atype (load_action 1 :: int UseApiReducerAction) = LOAD)
   \<and> error (fst (stateReducer stat_cfg 1 failed_state (load_action 1)))
       = Some (Error ''timeout'')
   \<and> loading (fst (stateReducer stat_cfg 1 failed_state (load_action 1))) = True
   \<and> (error loading_state = None
      \<and> error (fst (stateReducer stat_cfg 1 loading_state
                      (error_action 1 (Some (Error ''timeout''))))) \<noteq> None)
   \<and> atype (error_action 1 (Some (Error ''timeout'')) :: int UseApiReducerAction) = ERROR"
  using error_field_transitions [where ?a1.0 = "done_action 1 (Some new_data)" and cur = 1
      and d = new_data and ?a2.0 = "error_action 1 None" and ?a3.0 = "load_action 1"
      and cfg = stat_cfg and state = failed_state and state' = loading_state
      and ?a4.0 = "error_action 1 (Some (Error ''timeout''))"]
  by (simp add: stateReducer_def Let_def)

text \<open>
  C4 as stated fails: after a failed attempt, the \<open>load\<close> action of the next attempt
  returns a state that still has the error; so does a \<open>done\<close> action without data.
\<close>

theorem start_keeps_error:
  "error (fst (stateReducer stat_cfg 1 failed_state (load_action 1))) \<noteq> None
   \<and> error (fst (stateReducer stat_cfg 1 failed_state (done_action 1 None))) \<noteq> None"
  by (simp add: stateReducer_def)

text \<open>
  C5. \<open>mutate\<close>, with an updater or with a replacement value, sets \<open>payload\<close> and
  leaves \<open>loading\<close>, \<open>code\<close>, \<open>message\<close> and \<open>error\<close> as they were, for every state
  and every argument. The new payload is the replacement value, or the updater
  applied to the previous payload, which is the payload that the last render read.
  \<open>mutate\<close> adds nothing to the trace (no transport call, no callback, no timer) and
  leaves the counter alone. The reducer does the same with every action of type
  \<open>mutate\<close> that has no sequence number, at every state and counter.
\<close>

theorem mutate_frame:
  "payload (reducerState (mutate cfg h arg)) =
     (case arg of Updater f \<Rightarrow> f (payload (rendered h)) | Replacement v \<Rightarrow> v)
   \<and> loading (reducerState (mutate cfg h arg)) = loading (reducerState h)
   \<and> code (reducerState (mutate cfg h arg)) = code (reducerState h)
   \<and> message (reducerState (mutate cfg h arg)) = message (reducerState h)
   \<and> error (reducerState (mutate cfg h arg)) = error (reducerState h)
   \<and> effects (mutate cfg h arg) = effects h
   \<and> seqRef (mutate cfg h arg) = seqRef h
   \<and> rendered (mutate cfg h arg) = rendered h
   \<and> stateReducer cfg cur state
        \<lparr>seq = None, atype = MUTATE, adata = x, aerror = y, mutatedPayload = v\<rparr>
      = (state\<lparr>payload := v\<rparr>, [])"
  by (simp add: mutate_eq stateReducer_current_mutate)

theorem mutate_frame_witness:
  "payload (reducerState (mutate stat_cfg (fresh loaded_state)
      (Updater (map_option (\<lambda>p. p + 1))))) = Some 6
   \<and> loading (reducerState (mutate stat_cfg (fresh loaded_state)
      (Updater (map_option (\<lambda>p. p + 1))))) = False
   \<and> code (reducerState (mutate stat_cfg (fresh loaded_state)
      (Updater (map_option (\<lambda>p. p + 1))))) = Some 0
   \<and> error (reducerState (mutate stat_cfg (fresh loaded_state)
      (Updater (map_option (\<lambda>p. p + 1))))) = None
   \<and> effects (mutate stat_cfg (fresh loaded_state)
      (Updater (map_option (\<lambda>p. p + 1)))) = []
   \<and> payload (reducerState
        (mutate stat_cfg
           (mutate stat_cfg (fresh loaded_state) (Updater (map_option (\<lambda>p. p + 1))))
           (Updater (map_option (\<lambda>p. p + 1))))) = Some 6
   \<and> payload (reducerState
        (mutate stat_cfg
           (render (mutate stat_cfg (fresh loaded_state) (Updater (map_option (\<lambda>p. p + 1)))))
           (Updater (map_option (\<lambda>p. p + 1))))) = Some 7"
  using mutate_frame [where cfg = stat_cfg and h = "fresh loaded_state"
      and arg = "Updater (map_option (\<lambda>p. p + 1))"]
    mutate_frame [where cfg = stat_cfg
      and h = "mutate stat_cfg (fresh loaded_state) (Updater (map_option (\<lambda>p. p + 1)))"
      and arg = "Updater (map_option (\<lambda>p. p + 1))"]
    mutate_frame [where cfg = stat_cfg
      and h = "render (mutate stat_cfg (fresh loaded_state)
                 (Updater (map_option (\<lambda>p. p + 1))))"
      and arg = "Updater (map_option (\<lambda>p. p + 1))"]
  by (simp add: render_def)

text \<open>
  C6. \<open>abort\<close> adds one to the counter and changes neither the reducer state nor the
  trace. When an attempt is triggered, \<open>abort\<close> is called at any later point, and the
  attempt settles at any point after that, in whatever way, the settlement leaves the
  reducer state (and so \<open>loading\<close>) as the operations since the abort have set it.
\<close>

theorem abort_invalidation:
  "seqRef (abort h) = seqRef h + 1
   \<and> reducerState (abort h) = reducerState h
   \<and> effects (abort h) = effects h
   \<and> reducerState
        (snd (settle cfg (run cfg (abort (run cfg (sendRequest cfg h0 args) es)) es')
                (seqRef (sendRequest cfg h0 args)) p))
      = reducerState (run cfg (abort (run cfg (sendRequest cfg h0 args) es)) es')"
proof -
  define hA where "hA = sendRequest cfg h0 args"
  define h1 where "h1 = run cfg hA es"
  define h2 where "h2 = run cfg (abort h1) es'"
  have "seqRef hA \<le> seqRef h1" unfolding h1_def by (rule seqRef_run)
  moreover have "seqRef (abort h1) = seqRef h1 + 1" by (simp add: abort_def)
  moreover have "seqRef (abort h1) \<le> seqRef h2" unfolding h2_def by (rule seqRef_run)
  ultimately have "seqRef hA \<noteq> seqRef h2" by simp
  then have "reducerState (snd (settle cfg h2 (seqRef hA) p)) = reducerState h2"
    by (rule reducerState_settle_stale)
  then show ?thesis by (simp add: abort_def hA_def h1_def h2_def)
qed

theorem abort_invalidation_witness:
  "seqRef (abort (sendRequest stat_cfg (fresh idle_state) None)) = 2
   \<and> reducerState
        (snd (settle stat_cfg (abort (sendRequest stat_cfg (fresh idle_state) None)) 1
                (Fulfilled (success new_data))))
      = loading_state"
  using abort_invalidation [where h = "sendRequest stat_cfg (fresh idle_state) None"
      and cfg = stat_cfg and ?h0.0 = "fresh idle_state" and args = None and es = "[]"
      and es' = "[]" and p = "Fulfilled (success new_data)"]
  by (simp add: sendRequest_eq abort_def)

text \<open>
  C7. The code at a current \<open>load\<close> action: the state gets \<open>loading = true\<close>, and
  \<open>onLoad\<close> is invoked inside the reducer, before the reducer has returned the new
  state. No timer is armed for it, unlike for the callbacks of \<open>done\<close> and \<open>error\<close>.
\<close>

theorem load_calls_onLoad_on_the_spot:
  "stateReducer stat_cfg 1 idle_state (load_action 1) = (loading_state, [Call onLoad])
   \<and> snd (stateReducer stat_cfg 1 idle_state (load_action 1)) \<noteq> [SetTimeout [onLoad]]"
  by (simp add: stateReducer_def)

text \<open>
  C8. With \<open>manual\<close> set, the first state has \<open>loading = false\<close>, the effect of first
  activation does nothing, and a run without a trigger calls the transport never;
  \<open>sendRequest\<close>, whenever it is called, gives \<open>loading = true\<close>. With \<open>manual\<close> unset,
  the first state has \<open>loading = true\<close> and first activation triggers once: one
  transport call, with the configured arguments, and the counter at 1.
\<close>

theorem manual_mode:
  "(manual cfg \<longrightarrow>
      loading (reducerState (useApiRequest cfg)) = False
      \<and> mount cfg (useApiRequest cfg) = useApiRequest cfg
      \<and> (triggers es = [] \<longrightarrow>
           transport_calls (effects (run cfg (mount cfg (useApiRequest cfg)) es)) = [])
      \<and> loading (reducerState
           (sendRequest cfg (run cfg (mount cfg (useApiRequest cfg)) es) args)) = True)
   \<and> (\<not> manual cfg \<longrightarrow>
      loading (reducerState (useApiRequest cfg)) = True
      \<and> transport_calls (effects (mount cfg (useApiRequest cfg))) = [actualArgs cfg None]
      \<and> seqRef (mount cfg (useApiRequest cfg)) = 1)"
  by (simp add: transport_calls_run mount_def useApiRequest_def init_def sendRequest_eq)

theorem manual_mode_witness:
  "manual manual_cfg
   \<and> loading (reducerState (useApiRequest manual_cfg)) = False
   \<and> mount manual_cfg (useApiRequest manual_cfg) = useApiRequest manual_cfg
   \<and> triggers [Abort, Mutate (Replacement (Some 1)) :: int event] = []
   \<and> transport_calls (effects (run manual_cfg (mount manual_cfg (useApiRequest manual_cfg))
        [Abort, Mutate (Replacement (Some 1))])) = []
   \<and> loading (reducerState (sendRequest manual_cfg
        (run manual_cfg (mount manual_cfg (useApiRequest manual_cfg))
           [Abort, Mutate (Replacement (Some 1))]) None)) = True
   \<and> \<not> manual stat_cfg
   \<and> loading (reducerState (useApiRequest stat_cfg)) = True
   \<and> transport_calls (effects (mount stat_cfg (useApiRequest stat_cfg)))
       = [\<lparr>path = Some ''/stat?mine'', requestMethod = Some ''GET'', requestBody = None,
           requestQuery = None\<rparr>]"
  using manual_mode [where cfg = manual_cfg and es = "[Abort, Mutate (Replacement (Some 1))]"
      and args = None]
    manual_mode [where cfg = stat_cfg]
  by (simp add: actualArgs_def mount_def useApiRequest_def init_def mutate_eq abort_def
        sendRequest_eq)

text \<open>
  C9. When the transport's promise is rejected, the hook writes one log line and
  nothing else: no action is dispatched and the reducer state is unchanged, so that
  \<open>loading\<close> is still true when the rejected attempt is the one just triggered. The
  promise of the chain is fulfilled however the transport's promise settles: the
  rejection does not propagate.
\<close>

theorem transport_rejection:
  "settle cfg h k (Rejected reason) =
     (Fulfilled (),
      h\<lparr>effects := effects h @
          [ConsoleLog (''Should never happen. '' @
             (case reason of None \<Rightarrow> ''undefined'' | Some s \<Rightarrow> s))]\<rparr>)
   \<and> reducerState (snd (settle cfg h k (Rejected reason))) = reducerState h
   \<and> loading (reducerState
        (snd (settle cfg (sendRequest cfg h args) (seqRef (sendRequest cfg h args))
                (Rejected reason)))) = True
   \<and> fst (settle cfg h k p) = Fulfilled ()"
  by (cases p) (simp_all add: settle_def onRejected_def sendRequest_eq)

theorem transport_rejection_witness:
  "snd (settle stat_cfg (sendRequest stat_cfg (fresh idle_state) None) 1
          (Rejected (Some ''TypeError: x'')))
     = \<lparr>seqRef = 1, reducerState = loading_state, rendered = idle_state,
        effects = [Call onLoad,
                   SendApiRequest \<lparr>path = Some ''/stat?mine'', requestMethod = Some ''GET'',
                                   requestBody = None, requestQuery = None\<rparr>,
                   ConsoleLog ''Should never happen. TypeError: x'']\<rparr>"
  using transport_rejection [where cfg = stat_cfg
      and h = "sendRequest stat_cfg (fresh idle_state) None" and k = 1
      and reason = "Some ''TypeError: x''" and args = None
      and p = "Rejected (Some ''TypeError: x'')"]
  by (simp add: sendRequest_eq actualArgs_def)

text \<open>
  C10, as amended. The action of \<open>mutate\<close> has no sequence number and the reducer
  applies it at every value of the counter; \<open>mutate\<close> sets the payload right after
  \<open>abort\<close> and while an attempt is in flight. When that attempt, still current, then
  settles with an error result or with a result that carries data, the payload is the
  one of the settlement (null, or the formatted raw payload), whatever the mutation
  had put there. When it settles with a rejection, or with a result that is not an
  error and carries no data, the mutated payload stays.
\<close>

theorem mutate_unguarded:
  "stateReducer cfg cur state
      \<lparr>seq = None, atype = MUTATE, adata = None, aerror = None, mutatedPayload = v\<rparr>
     = (state\<lparr>payload := v\<rparr>, [])
   \<and> payload (reducerState (mutate cfg (abort h) arg)) =
       (case arg of Updater f \<Rightarrow> f (payload (rendered h)) | Replacement v \<Rightarrow> v)
   \<and> payload (reducerState (mutate cfg (sendRequest cfg h args) arg)) =
       (case arg of Updater f \<Rightarrow> f (payload (rendered h)) | Replacement v \<Rightarrow> v)
   \<and> (rstate r = state_error \<or> rdata r = Some d \<longrightarrow>
        payload (reducerState
          (snd (settle cfg (mutate cfg (sendRequest cfg h args) arg)
                  (seqRef (sendRequest cfg h args)) (Fulfilled r))))
        = (if rstate r = state_error then None
           else case formatResult cfg of None \<Rightarrow> dpayload d | Some f \<Rightarrow> f (dpayload d)))
   \<and> (rstate r' = state_success \<and> rdata r' = None \<longrightarrow>
        payload (reducerState
          (snd (settle cfg (mutate cfg (sendRequest cfg h args) arg)
                  (seqRef (sendRequest cfg h args)) (Fulfilled r'))))
        = payload (reducerState (mutate cfg (sendRequest cfg h args) arg)))
   \<and> payload (reducerState
        (snd (settle cfg (mutate cfg (sendRequest cfg h args) arg)
                (seqRef (sendRequest cfg h args)) (Rejected reason))))
      = payload (reducerState (mutate cfg (sendRequest cfg h args) arg))"
proof -
  define h1 where "h1 = sendRequest cfg h args"
  define h2 where "h2 = mutate cfg h1 arg"
  have unguarded: "stateReducer cfg cur state
      \<lparr>seq = None, atype = MUTATE, adata = None, aerror = None, mutatedPayload = v\<rparr>
     = (state\<lparr>payload := v\<rparr>, [])"
    by (simp add: stateReducer_current_mutate)
  have after_abort: "payload (reducerState (mutate cfg (abort h) arg)) =
       (case arg of Updater f \<Rightarrow> f (payload (rendered h)) | Replacement v \<Rightarrow> v)"
    by (simp add: mutate_eq abort_def split: mutate_arg.split)
  have in_flight: "payload (reducerState h2) =
       (case arg of Updater f \<Rightarrow> f (payload (rendered h)) | Replacement v \<Rightarrow> v)"
    by (simp add: h2_def h1_def mutate_eq sendRequest_eq split: mutate_arg.split)
  have current: "seqRef h2 = seqRef h1" by (simp add: h2_def seqRef_mutate)
  then have fulfilled: "snd (settle cfg h2 (seqRef h1) (Fulfilled q)) =
      onFulfilled cfg h2 (seqRef h2) q" for q
    by (simp add: settle_def)
  have overwritten: "rstate r = state_error \<or> rdata r = Some d \<longrightarrow>
        payload (reducerState (snd (settle cfg h2 (seqRef h1) (Fulfilled r))))
        = (if rstate r = state_error then None
           else case formatResult cfg of None \<Rightarrow> dpayload d | Some f \<Rightarrow> f (dpayload d))"
    unfolding fulfilled
    by (auto simp: reducerState_onFulfilled_current useOptionalPersistFn_def
          split: option.split)
  have no_data: "rstate r' = state_success \<and> rdata r' = None \<longrightarrow>
        payload (reducerState (snd (settle cfg h2 (seqRef h1) (Fulfilled r'))))
        = payload (reducerState h2)"
    unfolding fulfilled by (simp add: reducerState_onFulfilled_current)
  have rejected: "payload (reducerState (snd (settle cfg h2 (seqRef h1) (Rejected reason))))
      = payload (reducerState h2)"
    by (simp add: settle_def onRejected_def)
  from unguarded after_abort in_flight overwritten no_data rejected show ?thesis
    unfolding h2_def h1_def by (intro conjI)
qed

theorem mutate_unguarded_witness:
  "(rstate (success new_data) = state_error \<or> rdata (success new_data) = Some new_data)
   \<and> payload (reducerState (mutate stat_cfg (sendRequest stat_cfg (fresh loaded_state) None)
        (Replacement (Some 99)))) = Some 99
   \<and> payload (reducerState
        (snd (settle stat_cfg
                (mutate stat_cfg (sendRequest stat_cfg (fresh loaded_state) None)
                   (Replacement (Some 99)))
                1 (Fulfilled (success new_data))))) = Some 7
   \<and> (rstate \<lparr>rstate = state_success, rdata = None :: int ApiRequestData option,
               rerror = None\<rparr> = state_success
      \<and> rdata \<lparr>rstate = state_success, rdata = None :: int ApiRequestData option,
                rerror = None\<rparr> = None)
   \<and> payload (reducerState
        (snd (settle stat_cfg
                (mutate stat_cfg (sendRequest stat_cfg (fresh loaded_state) None)
                   (Replacement (Some 99)))
                1 (Fulfilled \<lparr>rstate = state_success, rdata = None, rerror = None\<rparr>))))
      = Some 99"
  using mutate_unguarded [where cfg = stat_cfg and h = "fresh loaded_state" and args = None
      and arg = "Replacement (Some 99)" and r = "success new_data" and d = new_data
      and r' = "\<lparr>rstate = state_success, rdata = None, rerror = None\<rparr>"]
  by (simp add: sendRequest_eq)

text \<open>
  C10 as stated fails: a still-current attempt that settles after the mutation does
  not always overwrite the mutated payload. With the payload 5 of an earlier result
  mutated to 99 while the attempt is in flight, a rejection of the transport's promise
  and a result without data both leave 99 in the state.
\<close>

theorem settlement_keeps_mutated_payload:
  "payload (reducerState
     (snd (settle stat_cfg
             (mutate stat_cfg (sendRequest stat_cfg (fresh loaded_state) None)
                (Replacement (Some 99)))
             1 (Rejected (Some ''TypeError: x''))))) = Some 99
   \<and> payload (reducerState
     (snd (settle stat_cfg
             (mutate stat_cfg (sendRequest stat_cfg (fresh loaded_state) None)
                (Replacement (Some 99)))
             1 (Fulfilled \<lparr>rstate = state_success, rdata = None, rerror = None\<rparr>)))) = Some 99"
  by (simp add: settle_def onRejected_def onFulfilled_def mutate_def sendRequest_def
        dispatch_def stateReducer_def Let_def)

end
